theory Spec2Isabelle
  imports Complex_Main "HOL-Library.Sublist" "HOL-Library.Code_Target_Nat"
begin

section \<open>Values of the program\<close>

subsection \<open>Python floats\<close>

text \<open>
  Amounts, prices and balances are Python floats. A float is modelled by the number it
  denotes: a finite value is the rational it stands for, and the two infinities and
  not-a-number are kept apart, because \<^verbatim>\<open>float("nan")\<close> and \<^verbatim>\<open>float("inf")\<close> are
  accepted by the command line and answer the comparisons of the pipeline in their own
  way. Comparison and rendering are exact on the value; a quotient is rounded to the
  nearest double as the hardware does. The sign of zero is not represented.
\<close>

datatype pyfloat = Fin rat | PInf | NInf | NaN

text \<open>\<^verbatim>\<open>a < b\<close> on floats: false whenever an operand is not-a-number.\<close>

fun float_lt :: "pyfloat \<Rightarrow> pyfloat \<Rightarrow> bool" where
  "float_lt NaN b = False"
| "float_lt a NaN = False"
| "float_lt (Fin a) (Fin b) = (a < b)"
| "float_lt a NInf = False"
| "float_lt PInf b = False"
| "float_lt NInf b = True"
| "float_lt a PInf = True"

text \<open>\<^verbatim>\<open>a == b\<close> on floats: not-a-number equals nothing, itself included.\<close>

definition float_eq :: "pyfloat \<Rightarrow> pyfloat \<Rightarrow> bool" where
  "float_eq a b = (a = b \<and> a \<noteq> NaN)"

text \<open>\<^verbatim>\<open>a <= b\<close> and \<^verbatim>\<open>a > b\<close>.\<close>

definition float_le :: "pyfloat \<Rightarrow> pyfloat \<Rightarrow> bool" where
  "float_le a b = (float_lt a b \<or> float_eq a b)"

definition float_gt :: "pyfloat \<Rightarrow> pyfloat \<Rightarrow> bool" where
  "float_gt a b = float_lt b a"

text \<open>Truth value of a float: only zero is false (\<^verbatim>\<open>not x\<close>).\<close>

definition float_truthy :: "pyfloat \<Rightarrow> bool" where
  "float_truthy x = (x \<noteq> Fin 0)"

text \<open>Rounding to the nearest integer, a tie to the even one.\<close>

definition round_half_even :: "rat \<Rightarrow> int" where
  "round_half_even r =
     (let f = \<lfloor>r\<rfloor>; d = r - of_int f
      in if d < 1 / 2 then f
         else if 1 / 2 < d then f + 1
         else if even f then f else f + 1)"

text \<open>
  A double has 53 significant bits and its last place is worth \<open>2\<^sup>e\<close> with \<open>e\<close> from
  \<open>-1074\<close> (the subnormal numbers) to \<open>971\<close>. For a magnitude \<open>x\<close> the last place of
  the doubles around it is the least such \<open>e\<close> with \<open>x < 2\<^sup>e\<^sup>+\<^sup>5\<^sup>3\<close>, found by
  going up from \<open>-1074\<close>.
\<close>

fun ulp_exponent_from :: "nat \<Rightarrow> int \<Rightarrow> rat \<Rightarrow> int" where
  "ulp_exponent_from 0 e x = e"
| "ulp_exponent_from (Suc n) e x =
     (if x < 2 powi (e + 53) then e else ulp_exponent_from n (e + 1) x)"

definition ulp_exponent :: "rat \<Rightarrow> int" where
  "ulp_exponent x = ulp_exponent_from 2045 (- 1074) x"

text \<open>
  The double nearest to an exact result (IEEE 754 round-to-nearest, ties to even): the
  magnitude is rounded to a whole number of last places, and a result of \<open>2\<^sup>1\<^sup>0\<^sup>2\<^sup>4\<close>
  or more is an infinity.
\<close>

definition round_to_double :: "rat \<Rightarrow> pyfloat" where
  "round_to_double x =
     (let e = ulp_exponent \<bar>x\<bar>;
          m = round_half_even (\<bar>x\<bar> / 2 powi e);
          y = of_int m * 2 powi e
      in if 2 ^ 1024 \<le> y then (if x < 0 then NInf else PInf)
         else Fin (if x < 0 then - y else y))"

text \<open>
  \<^verbatim>\<open>a / b\<close>, used by the program only under the guard \<^verbatim>\<open>b > 0\<close>; a zero divisor
  raises ZeroDivisionError, which is the value \<open>None\<close> here. The quotient of two finite
  floats is the exact quotient rounded to the nearest double.
\<close>

fun float_div :: "pyfloat \<Rightarrow> pyfloat \<Rightarrow> pyfloat option" where
  "float_div a (Fin b) =
     (if b = 0 then None
      else Some (case a of
             Fin x \<Rightarrow> round_to_double (x / b)
           | PInf \<Rightarrow> (if 0 < b then PInf else NInf)
           | NInf \<Rightarrow> (if 0 < b then NInf else PInf)
           | NaN \<Rightarrow> NaN))"
| "float_div a NaN = Some NaN"
| "float_div (Fin x) b = Some (Fin 0)"
| "float_div a b = Some NaN"

subsection \<open>Fixed-point rendering\<close>

text \<open>
  \<^verbatim>\<open>f"{x:.2f}"\<close> and \<^verbatim>\<open>f"{x:.8f}"\<close>: the value rounded to the given number of decimals,
  ties to the even neighbour, with the sign in front and the fraction padded with zeros.
\<close>

definition digit_char :: "nat \<Rightarrow> char" where
  "digit_char d = ''0123456789'' ! d"

function decimal :: "nat \<Rightarrow> string" where
  "decimal n = (if n < 10 then [digit_char n] else decimal (n div 10) @ [digit_char (n mod 10)])"
  by pat_completeness auto
termination
  by (relation "measure id") auto

declare decimal.simps [simp del]

definition zero_pad :: "nat \<Rightarrow> string \<Rightarrow> string" where
  "zero_pad k s = replicate (k - length s) (CHR ''0'') @ s"

fun format_f :: "nat \<Rightarrow> pyfloat \<Rightarrow> string" where
  "format_f k (Fin x) =
     (let n = nat (round_half_even (\<bar>x\<bar> * 10 ^ k))
      in (if x < 0 then ''-'' else '''')
         @ decimal (n div 10 ^ k) @ ''.'' @ zero_pad k (decimal (n mod 10 ^ k)))"
| "format_f k PInf = ''inf''"
| "format_f k NInf = ''-inf''"
| "format_f k NaN = ''nan''"

subsection \<open>Strings\<close>

text \<open>
  Strings are lists of characters. \<^verbatim>\<open>str.lower\<close> and \<^verbatim>\<open>str.upper\<close> are modelled on
  ASCII text: they move the twenty-six letters and leave every other character alone.
  For the comparison with \<^verbatim>\<open>live\<close> this is all of Python's behaviour, since no
  character outside ASCII has one of the letters l, i, v, e as its lower-case form.
\<close>

definition ascii_uppercase :: string where
  "ascii_uppercase = ''ABCDEFGHIJKLMNOPQRSTUVWXYZ''"

definition ascii_lowercase :: string where
  "ascii_lowercase = ''abcdefghijklmnopqrstuvwxyz''"

definition lower_char :: "char \<Rightarrow> char" where
  "lower_char c = (case map_of (zip ascii_uppercase ascii_lowercase) c of None \<Rightarrow> c | Some d \<Rightarrow> d)"

definition upper_char :: "char \<Rightarrow> char" where
  "upper_char c = (case map_of (zip ascii_lowercase ascii_uppercase) c of None \<Rightarrow> c | Some d \<Rightarrow> d)"

definition lower :: "string \<Rightarrow> string" where
  "lower s = map lower_char s"

definition upper :: "string \<Rightarrow> string" where
  "upper s = map upper_char s"

section \<open>Configuration (config.py)\<close>

record TradingConfig =
  api_key :: string
  api_secret :: string
  trading_mode :: string
  max_order_usd :: pyfloat
  trading_pair :: string

definition is_dry_run :: "TradingConfig \<Rightarrow> bool" where
  "is_dry_run c = (lower (trading_mode c) \<noteq> ''live'')"

text \<open>
  \<^verbatim>\<open>print_config_summary\<close>: the arguments of its \<^verbatim>\<open>print\<close> calls, in order. The key is
  shown by its first and last four characters when it is longer than eight, and by a
  fixed mask otherwise.
\<close>

definition masked_key :: "TradingConfig \<Rightarrow> string" where
  "masked_key c =
     (if length (api_key c) > 8
      then take 4 (api_key c) @ ''...'' @ drop (length (api_key c) - 4) (api_key c)
      else ''****'')"

definition newline :: string where
  "newline = [CHR 0x0A]"

definition print_config_summary :: "TradingConfig \<Rightarrow> string list" where
  "print_config_summary c =
     [newline @ replicate 50 (CHR ''=''),
      ''CONFIGURATION SUMMARY'',
      replicate 50 (CHR ''=''),
      ''API Key:        '' @ masked_key c,
      ''Trading Mode:   '' @ upper (trading_mode c),
      ''Trading Pair:   '' @ trading_pair c,
      ''Max Order:      $'' @ format_f 2 (max_order_usd c),
      (if is_dry_run c
       then newline @ ''[DRY RUN MODE] No real trades will be executed''
       else newline @ ''[LIVE MODE] Real trades WILL be executed!''),
      replicate 50 (CHR ''='') @ newline]"

section \<open>The exchange client and the outside world\<close>

text \<open>
  The bot talks to the exchange through four calls of the REST client. What a call
  answers is not decided by the program, so the answers are given from outside: an
  environment fixes, for every moment, what each call would answer then, which UUID
  \<^verbatim>\<open>uuid.uuid4()\<close> would draw and what \<^verbatim>\<open>datetime.now().isoformat()\<close> would read.
  The moment is a counter that every call, draw and clock reading advances; the calls
  made are recorded in order. The environment also supplies \<^verbatim>\<open>str(x)\<close> of a float, the
  shortest decimal string that reads back as the same double.
\<close>

text \<open>
  An account of the listing, by what the bot reads of it. Reading \<^verbatim>\<open>account.currency\<close>
  gives a string or raises (\<open>None\<close>). Reading \<^verbatim>\<open>account.available_balance.value\<close>
  raises, or gives a value; of that value only \<^verbatim>\<open>float(value)\<close> is used, which is a
  float or raises (\<open>None\<close>).
\<close>

datatype balance_value =
    Balance_unreadable
  | Balance_value "pyfloat option"

record account =
  currency :: "string option"
  available_balance :: balance_value

text \<open>
  \<^verbatim>\<open>client.get_accounts()\<close>: it raises, or answers a false value, or an object without
  the attribute \<^verbatim>\<open>accounts\<close>, or one whose \<^verbatim>\<open>accounts\<close> is \<^verbatim>\<open>None\<close> or a list.
\<close>

datatype accounts_reply =
    Accounts_raises
  | Accounts_falsy
  | Accounts_no_attr
  | Accounts "account list option"

text \<open>\<^verbatim>\<open>client.get_product(pair)\<close>; the price is \<^verbatim>\<open>float(product.price)\<close>, \<open>None\<close> when
  that raises.\<close>

datatype product_reply =
    Product_raises
  | Product_falsy
  | Product "pyfloat option"

text \<open>A level of the book as sent: \<^verbatim>\<open>float(level.price)\<close> and \<^verbatim>\<open>float(level.size)\<close>,
  each \<open>None\<close> when the conversion raises.\<close>

record raw_level =
  raw_price :: "pyfloat option"
  raw_size :: "pyfloat option"

text \<open>The price book as sent; a side that is missing, \<^verbatim>\<open>None\<close> or empty is the empty list.\<close>

record pricebook =
  bids :: "raw_level list"
  asks :: "raw_level list"

text \<open>\<^verbatim>\<open>client.get_product_book(product_id, limit)\<close>: it raises, or answers a false value or
  an object without \<^verbatim>\<open>pricebook\<close>, or a price book.\<close>

datatype book_reply =
    Book_raises
  | Book_empty
  | Book pricebook

text \<open>\<^verbatim>\<open>client.market_order_buy(...)\<close>: it raises, or answers a false value, or an
  acknowledgement with or without the attribute \<^verbatim>\<open>order_id\<close>.\<close>

datatype order_reply =
    Order_raises
  | Order_falsy
  | Order "string option"

text \<open>A call of the client with its arguments; the order call has \<^verbatim>\<open>client_order_id\<close>,
  \<^verbatim>\<open>product_id\<close> and \<^verbatim>\<open>quote_size\<close>.\<close>

datatype call =
    Get_accounts
  | Get_product string
  | Get_product_book string nat
  | Market_order_buy string string string

record env =
  accounts_reply_at :: "nat \<Rightarrow> accounts_reply"
  product_reply_at :: "nat \<Rightarrow> product_reply"
  book_reply_at :: "nat \<Rightarrow> book_reply"
  order_reply_at :: "nat \<Rightarrow> order_reply"
  uuid4_hex_at :: "nat \<Rightarrow> string"
  now_iso_at :: "nat \<Rightarrow> string"
  float_str :: "pyfloat \<Rightarrow> string"

record world =
  tick :: nat
  calls :: "call list"

definition made :: "call \<Rightarrow> world \<Rightarrow> world" where
  "made c w = w\<lparr>tick := Suc (tick w), calls := calls w @ [c]\<rparr>"

definition client_get_accounts :: "env \<Rightarrow> world \<Rightarrow> accounts_reply \<times> world" where
  "client_get_accounts e w = (accounts_reply_at e (tick w), made Get_accounts w)"

definition client_get_product :: "env \<Rightarrow> string \<Rightarrow> world \<Rightarrow> product_reply \<times> world" where
  "client_get_product e pair w = (product_reply_at e (tick w), made (Get_product pair) w)"

definition client_get_product_book ::
  "env \<Rightarrow> string \<Rightarrow> nat \<Rightarrow> world \<Rightarrow> book_reply \<times> world" where
  "client_get_product_book e pair limit w =
     (book_reply_at e (tick w), made (Get_product_book pair limit) w)"

definition client_market_order_buy ::
  "env \<Rightarrow> string \<Rightarrow> string \<Rightarrow> string \<Rightarrow> world \<Rightarrow> order_reply \<times> world" where
  "client_market_order_buy e client_order_id pair quote w =
     (order_reply_at e (tick w), made (Market_order_buy client_order_id pair quote) w)"

text \<open>\<^verbatim>\<open>uuid.uuid4().hex\<close>: thirty-two lower-case hexadecimal digits.\<close>

definition uuid4_hex :: "env \<Rightarrow> world \<Rightarrow> string \<times> world" where
  "uuid4_hex e w = (uuid4_hex_at e (tick w), w\<lparr>tick := Suc (tick w)\<rparr>)"

definition hex_digits :: string where
  "hex_digits = ''0123456789abcdef''"

definition is_uuid_hex :: "string \<Rightarrow> bool" where
  "is_uuid_hex h = (length h = 32 \<and> list_all (\<lambda>c. c \<in> set hex_digits) h)"

text \<open>\<^verbatim>\<open>str(u)\<close> of a UUID: the digits in groups of 8, 4, 4, 4 and 12.\<close>

definition uuid_str :: "string \<Rightarrow> string" where
  "uuid_str h =
     take 8 h @ ''-'' @ take 4 (drop 8 h) @ ''-'' @ take 4 (drop 12 h) @ ''-''
     @ take 4 (drop 16 h) @ ''-'' @ drop 20 h"

definition now_isoformat :: "env \<Rightarrow> world \<Rightarrow> string \<times> world" where
  "now_isoformat e w = (now_iso_at e (tick w), w\<lparr>tick := Suc (tick w)\<rparr>)"

section \<open>The trading bot (trading-bot module)\<close>

text \<open>
  Every method takes the environment and the world and gives its result with the world
  after it. The logger only writes lines to the console and a file and never raises; its
  calls are left out. Where a method gives up with \<^verbatim>\<open>return None\<close>, the result says which
  of its exits was taken, named after the line it logs there.
\<close>

subsection \<open>Reading market data\<close>

text \<open>
  The loop of \<^verbatim>\<open>validate_credentials\<close> over the first five accounts. The line it logs
  for an account is built from \<^verbatim>\<open>account.currency\<close> and
  \<^verbatim>\<open>account.available_balance.value\<close>, in this order; when reading one of them raises,
  the exception is caught by the \<^verbatim>\<open>except\<close> of the method. The result is whether the
  loop came to its end.
\<close>

fun accounts_logged :: "account list \<Rightarrow> bool" where
  "accounts_logged [] = True"
| "accounts_logged (a # as) =
     (case currency a of
        None \<Rightarrow> False
      | Some c \<Rightarrow>
          (case available_balance a of
             Balance_unreadable \<Rightarrow> False
           | Balance_value v \<Rightarrow> accounts_logged as))"

text \<open>
  \<^verbatim>\<open>validate_credentials\<close>: one listing of the accounts. Slicing \<^verbatim>\<open>accounts.accounts[:5]\<close>
  raises inside the \<^verbatim>\<open>try\<close> when the attribute is \<^verbatim>\<open>None\<close>.
\<close>

definition validate_credentials :: "env \<Rightarrow> world \<Rightarrow> bool \<times> world" where
  "validate_credentials e w =
     (let (accounts, w1) = client_get_accounts e w
      in (case accounts of
            Accounts_raises \<Rightarrow> False
          | Accounts_falsy \<Rightarrow> False
          | Accounts_no_attr \<Rightarrow> False
          | Accounts None \<Rightarrow> False
          | Accounts (Some xs) \<Rightarrow> accounts_logged (take 5 xs), w1))"

definition get_current_price :: "env \<Rightarrow> TradingConfig \<Rightarrow> world \<Rightarrow> pyfloat option \<times> world" where
  "get_current_price e cfg w =
     (let (product, w1) = client_get_product e (trading_pair cfg) w
      in (case product of
            Product_raises \<Rightarrow> None
          | Product_falsy \<Rightarrow> None
          | Product price \<Rightarrow> price, w1))"

record level =
  price :: pyfloat
  size :: pyfloat

record order_book =
  book_bids :: "level list"
  book_asks :: "level list"

text \<open>The loop that converts the levels of one side; a conversion that raises ends the
  whole method.\<close>

fun parse_levels :: "raw_level list \<Rightarrow> level list option" where
  "parse_levels [] = Some []"
| "parse_levels (l # ls) =
     (case raw_price l of
        None \<Rightarrow> None
      | Some p \<Rightarrow>
          (case raw_size l of
             None \<Rightarrow> None
           | Some s \<Rightarrow>
               (case parse_levels ls of
                  None \<Rightarrow> None
                | Some rest \<Rightarrow> Some (\<lparr>price = p, size = s\<rparr> # rest))))"

text \<open>
  The spread line divides by the best ask, \<^verbatim>\<open>(spread / asks[0]['price']) * 100\<close>, when
  both sides are non-empty: a best ask of zero raises ZeroDivisionError inside the
  \<^verbatim>\<open>try\<close>.
\<close>

fun spread_raises :: "level list \<Rightarrow> level list \<Rightarrow> bool" where
  "spread_raises (b # bs) (a # as) = (price a = Fin 0)"
| "spread_raises bs as = False"

definition get_order_book ::
  "env \<Rightarrow> TradingConfig \<Rightarrow> nat \<Rightarrow> world \<Rightarrow> order_book option \<times> world" where
  "get_order_book e cfg limit w =
     (let (reply, w1) = client_get_product_book e (trading_pair cfg) limit w
      in (case reply of
            Book_raises \<Rightarrow> None
          | Book_empty \<Rightarrow> None
          | Book pb \<Rightarrow>
              (case parse_levels (take limit (bids pb)) of
                 None \<Rightarrow> None
               | Some bs \<Rightarrow>
                   (case parse_levels (take limit (asks pb)) of
                      None \<Rightarrow> None
                    | Some as \<Rightarrow>
                        if spread_raises bs as then None
                        else Some \<lparr>book_bids = bs, book_asks = as\<rparr>)), w1))"

text \<open>
  The loop of \<^verbatim>\<open>get_account_balance\<close>: the first account of the currency decides. An
  account whose currency cannot be read, or a balance that cannot be read or converted,
  raises into the \<^verbatim>\<open>except\<close> of the method, which returns \<^verbatim>\<open>None\<close>, as does a list
  without the currency.
\<close>

fun balance_in :: "string \<Rightarrow> account list \<Rightarrow> pyfloat option" where
  "balance_in cur [] = None"
| "balance_in cur (a # as) =
     (case currency a of
        None \<Rightarrow> None
      | Some c \<Rightarrow>
          if c = cur
          then (case available_balance a of
                  Balance_unreadable \<Rightarrow> None
                | Balance_value v \<Rightarrow> v)
          else balance_in cur as)"

definition get_account_balance :: "env \<Rightarrow> string \<Rightarrow> world \<Rightarrow> pyfloat option \<times> world" where
  "get_account_balance e cur w =
     (let (accounts, w1) = client_get_accounts e w
      in (case accounts of
            Accounts (Some xs) \<Rightarrow> balance_in cur xs
          | _ \<Rightarrow> None, w1))"

subsection \<open>Placing a market buy\<close>

text \<open>
  The exits of the order methods that return \<^verbatim>\<open>None\<close>, in the order of the constructors
  and by the line logged there: \<^verbatim>\<open>Order amount must be positive\<close>,
  \<^verbatim>\<open>Order amount ... exceeds maximum allowed ...\<close>, \<^verbatim>\<open>Order amount must be at least $1.00\<close>,
  \<^verbatim>\<open>Insufficient USD balance: ...\<close>, \<^verbatim>\<open>Order returned empty response\<close> and
  \<^verbatim>\<open>Order execution failed: ...\<close>. The last constructor is not an exit of the code: it
  stands for a ZeroDivisionError leaving \<^verbatim>\<open>_simulate_market_buy\<close>, which has no \<^verbatim>\<open>try\<close>
  around its division.
\<close>

datatype failure =
    InvalidAmount
  | ExceedsConfiguredLimit
  | BelowExchangeMinimum
  | InsufficientBalance
  | EmptyResponse
  | SubmissionFailure
  | Uncaught_ZeroDivisionError

text \<open>The order details are a dict from strings to strings, kept in insertion order.\<close>

type_synonym order_details = "(string \<times> string) list"

definition simulate_market_buy ::
  "env \<Rightarrow> TradingConfig \<Rightarrow> pyfloat \<Rightarrow> world \<Rightarrow> (failure + order_details) \<times> world" where
  "simulate_market_buy e cfg usd_amount w =
     (let (fetched, w1) = get_current_price e cfg w;
          current_price =
            (case fetched of
               None \<Rightarrow> Fin 0
             | Some p \<Rightarrow> if float_truthy p then p else Fin 0);
          quotient =
            (if float_gt current_price (Fin 0) then float_div usd_amount current_price
             else Some (Fin 0))
      in case quotient of
           None \<Rightarrow> (Inl Uncaught_ZeroDivisionError, w1)
         | Some estimated_quantity \<Rightarrow>
             (let (h, w2) = uuid4_hex e w1;
                  (ts, w3) = now_isoformat e w2
              in (Inr [(''order_id'', ''DRY-RUN-'' @ upper (take 8 h)),
                       (''product_id'', trading_pair cfg),
                       (''side'', ''BUY''),
                       (''type'', ''MARKET''),
                       (''status'', ''SIMULATED''),
                       (''quote_size'', format_f 2 usd_amount),
                       (''estimated_fill_price'', format_f 2 current_price),
                       (''estimated_quantity'', format_f 8 estimated_quantity),
                       (''timestamp'', ts)], w3)))"

definition execute_market_buy ::
  "env \<Rightarrow> TradingConfig \<Rightarrow> pyfloat \<Rightarrow> world \<Rightarrow> (failure + order_details) \<times> world" where
  "execute_market_buy e cfg usd_amount w =
     (let (usd_balance, w1) = get_account_balance e ''USD'' w
      in if (case usd_balance of None \<Rightarrow> False | Some b \<Rightarrow> float_lt b usd_amount)
         then (Inl InsufficientBalance, w1)
         else
           (let (h, w2) = uuid4_hex e w1;
                client_order_id = uuid_str h;
                (order, w3) =
                  client_market_order_buy e client_order_id (trading_pair cfg)
                    (float_str e usd_amount) w2
            in case order of
                 Order_raises \<Rightarrow> (Inl SubmissionFailure, w3)
               | Order_falsy \<Rightarrow> (Inl EmptyResponse, w3)
               | Order oid \<Rightarrow>
                   (let (ts, w4) = now_isoformat e w3
                    in (Inr [(''order_id'', (case oid of None \<Rightarrow> ''N/A'' | Some i \<Rightarrow> i)),
                             (''client_order_id'', client_order_id),
                             (''product_id'', trading_pair cfg),
                             (''side'', ''BUY''),
                             (''type'', ''MARKET''),
                             (''quote_size'', float_str e usd_amount),
                             (''status'', ''PLACED''),
                             (''timestamp'', ts)], w4))))"

definition place_market_buy ::
  "env \<Rightarrow> TradingConfig \<Rightarrow> pyfloat \<Rightarrow> world \<Rightarrow> (failure + order_details) \<times> world" where
  "place_market_buy e cfg usd_amount w =
     (if float_le usd_amount (Fin 0) then (Inl InvalidAmount, w)
      else if float_gt usd_amount (max_order_usd cfg) then (Inl ExceedsConfiguredLimit, w)
      else if float_lt usd_amount (Fin 1) then (Inl BelowExchangeMinimum, w)
      else if is_dry_run cfg then simulate_market_buy e cfg usd_amount w
      else execute_market_buy e cfg usd_amount w)"

subsection \<open>Diagnostics\<close>

definition run_diagnostics :: "env \<Rightarrow> TradingConfig \<Rightarrow> world \<Rightarrow> bool \<times> world" where
  "run_diagnostics e cfg w =
     (let all_passed0 = True;
          (valid, w1) = validate_credentials e w;
          all_passed1 = (if \<not> valid then False else all_passed0);
          (cur_price, w2) = get_current_price e cfg w1;
          all_passed2 = (if cur_price = None then False else all_passed1);
          (book, w3) = get_order_book e cfg 5 w2;
          all_passed3 = (if book = None then False else all_passed2);
          (balance, w4) = get_account_balance e ''USD'' w3
      in (all_passed3, w4))"

section \<open>Reading results and traces\<close>

text \<open>\<^verbatim>\<open>result[key]\<close> on what an order method returned; nothing when it returned \<^verbatim>\<open>None\<close>.\<close>

definition detail :: "string \<Rightarrow> failure + order_details \<Rightarrow> string option" where
  "detail key r = (case r of Inl f \<Rightarrow> None | Inr d \<Rightarrow> map_of d key)"

text \<open>The price the simulation computes with: the fetched one, zero when the fetch failed.\<close>

definition price_or_zero :: "pyfloat option \<Rightarrow> pyfloat" where
  "price_or_zero fetched = (case fetched of None \<Rightarrow> Fin 0 | Some p \<Rightarrow> p)"

text \<open>The calls of a trace that reach the order-submission endpoint.\<close>

fun is_submission :: "call \<Rightarrow> bool" where
  "is_submission (Market_order_buy client_order_id pair quote) = True"
| "is_submission c = False"

definition submissions :: "world \<Rightarrow> call list" where
  "submissions w = filter is_submission (calls w)"

section \<open>Example runs\<close>

text \<open>
  A configuration with the defaults of \<^verbatim>\<open>load_config\<close>, its live twin, and an exchange
  that answers every call: a BTC account and a USD account holding 5, a price of 50000,
  a book with one bid and one ask, and an acknowledgement \<^verbatim>\<open>abc123\<close>. The UUIDs drawn are all different and agree on
  their first eight digits. \<^verbatim>\<open>str\<close> of the amounts used here has one decimal.
\<close>

definition example_config :: TradingConfig where
  "example_config =
     \<lparr>api_key = ''organizations/acme/apiKeys/7c1d'', api_secret = ''not-shown'',
      trading_mode = ''dry_run'', max_order_usd = Fin 50, trading_pair = ''BTC-USD''\<rparr>"

definition live_config :: TradingConfig where
  "live_config = example_config\<lparr>trading_mode := ''live''\<rparr>"

definition example_env :: env where
  "example_env =
     \<lparr>accounts_reply_at =
        (\<lambda>t. Accounts (Some
           [\<lparr>currency = Some ''BTC'', available_balance = Balance_value (Some (Fin (1 / 4)))\<rparr>,
            \<lparr>currency = Some ''USD'', available_balance = Balance_value (Some (Fin 5))\<rparr>])),
      product_reply_at = (\<lambda>t. Product (Some (Fin 50000))),
      book_reply_at =
        (\<lambda>t. Book \<lparr>bids = [\<lparr>raw_price = Some (Fin 49999), raw_size = Some (Fin (1 / 2))\<rparr>],
                     asks = [\<lparr>raw_price = Some (Fin 50001), raw_size = Some (Fin (1 / 4))\<rparr>]\<rparr>),
      order_reply_at = (\<lambda>t. Order (Some ''abc123'')),
      uuid4_hex_at = (\<lambda>t. ''3f2a9c1e5b7d4e0a8c6f0000'' @ zero_pad 8 (decimal t)),
      now_iso_at = (\<lambda>t. ''2024-05-01T12:00:00.000000''),
      float_str = format_f 1\<rparr>"

text \<open>The same exchange when the account listing fails, when the account holds no USD,
  and when the balance of the listed accounts cannot be read.\<close>

definition offline_accounts_env :: env where
  "offline_accounts_env = example_env\<lparr>accounts_reply_at := (\<lambda>t. Accounts_raises)\<rparr>"

definition no_usd_env :: env where
  "no_usd_env =
     example_env\<lparr>accounts_reply_at :=
       (\<lambda>t. Accounts (Some
          [\<lparr>currency = Some ''BTC'', available_balance = Balance_value (Some (Fin (1 / 4)))\<rparr>]))\<rparr>"

definition unreadable_balance_env :: env where
  "unreadable_balance_env =
     example_env\<lparr>accounts_reply_at :=
       (\<lambda>t. Accounts (Some
          [\<lparr>currency = Some ''USD'', available_balance = Balance_unreadable\<rparr>]))\<rparr>"

definition start_world :: world where
  "start_world = \<lparr>tick = 0, calls = []\<rparr>"

section \<open>Properties\<close>

subsection \<open>Comparisons\<close>

lemma float_lt_not_le: "float_lt a b \<Longrightarrow> \<not> float_le b a"
  by (cases a; cases b) (auto simp: float_le_def float_eq_def)

lemma float_gt_not_le: "float_gt a b \<Longrightarrow> \<not> float_le a b"
  by (simp add: float_gt_def float_lt_not_le)

subsection \<open>Rounding to a double\<close>

text \<open>
  The search gives the exponent of the binade of \<open>x\<close>, and rounding gives the whole
  number of last places within half a place of \<open>x\<close>: with both at hand the nearest
  double is known without running either.
\<close>

lemma ulp_exponent_from_least:
  assumes "e0 \<le> e" and "e \<le> e0 + int n"
    and "\<forall>k. e0 \<le> k \<and> k < e \<longrightarrow> \<not> x < 2 powi (k + 53)"
    and "x < 2 powi (e + 53) \<or> e = e0 + int n"
  shows "ulp_exponent_from n e0 x = e"
  using assms
proof (induction n arbitrary: e0)
  case 0
  then show ?case by simp
next
  case (Suc n)
  show ?case
  proof (cases "x < 2 powi (e0 + 53)")
    case True
    with Suc.prems(1,3) have "e = e0"
      by (metis order_le_less)
    with True show ?thesis by simp
  next
    case False
    with Suc.prems(1,4) have lt: "e0 < e"
      by (cases "e = e0") auto
    have "ulp_exponent_from n (e0 + 1) x = e"
    proof (rule Suc.IH)
      show "e0 + 1 \<le> e" using lt by simp
      show "e \<le> e0 + 1 + int n" using Suc.prems(2) by simp
      show "\<forall>k. e0 + 1 \<le> k \<and> k < e \<longrightarrow> \<not> x < 2 powi (k + 53)"
        using Suc.prems(3) by simp
      show "x < 2 powi (e + 53) \<or> e = e0 + 1 + int n"
        using Suc.prems(4) by auto
    qed
    with False show ?thesis by simp
  qed
qed

lemma ulp_exponent_eq:
  assumes "- 1074 \<le> e" and "e \<le> 971"
    and "e = - 1074 \<or> 2 powi (e + 52) \<le> x" and "x < 2 powi (e + 53)"
  shows "ulp_exponent x = e"
  unfolding ulp_exponent_def
proof (rule ulp_exponent_from_least)
  show "- 1074 \<le> e" by fact
  show "e \<le> - 1074 + int 2045" using assms(2) by simp
  show "x < 2 powi (e + 53) \<or> e = - 1074 + int 2045" using assms(4) by simp
  show "\<forall>k. - 1074 \<le> k \<and> k < e \<longrightarrow> \<not> x < 2 powi (k + 53)"
  proof (intro allI impI)
    fix k :: int
    assume k: "- 1074 \<le> k \<and> k < e"
    then have "e \<noteq> - 1074" by simp
    with assms(3) have low: "2 powi (e + 52) \<le> x" by simp
    have "(2::rat) powi (k + 53) \<le> 2 powi (e + 52)"
      using k by (intro power_int_increasing) simp_all
    with low show "\<not> x < 2 powi (k + 53)" by simp
  qed
qed

lemma round_half_even_eq:
  assumes "of_int n - 1 / 2 < r" and "r < of_int n + 1 / 2"
  shows "round_half_even r = n"
proof (cases "of_int n \<le> r")
  case True
  then have f: "\<lfloor>r\<rfloor> = n"
    using assms(2) by (intro floor_unique) simp_all
  show ?thesis
    using assms(2) by (simp add: round_half_even_def f Let_def)
next
  case False
  then have f: "\<lfloor>r\<rfloor> = n - 1"
    using assms(1) by (intro floor_unique) simp_all
  show ?thesis
    using assms(1) by (simp add: round_half_even_def f Let_def)
qed

lemma round_to_double_eq:
  assumes "0 \<le> x" and "- 1074 \<le> e" and "e \<le> 971"
    and "e = - 1074 \<or> 2 powi (e + 52) \<le> x" and "x < 2 powi (e + 53)"
    and "of_int m - 1 / 2 < x / 2 powi e" and "x / 2 powi e < of_int m + 1 / 2"
    and "of_int m * 2 powi e < (2::rat) ^ 1024"
  shows "round_to_double x = Fin (of_int m * 2 powi e)"
proof -
  have a: "\<bar>x\<bar> = x" using assms(1) by simp
  have e: "ulp_exponent x = e"
    using assms(2-5) by (rule ulp_exponent_eq)
  have m: "round_half_even (x / 2 powi e) = m"
    using assms(6,7) by (rule round_half_even_eq)
  show ?thesis
    using assms(1,8) by (simp add: round_to_double_def a e m Let_def)
qed

subsection \<open>What each method does to the world\<close>

lemma validate_credentials_world: "snd (validate_credentials e w) = made Get_accounts w"
  by (simp add: validate_credentials_def client_get_accounts_def)

lemma get_current_price_world:
  "snd (get_current_price e cfg w) = made (Get_product (trading_pair cfg)) w"
  by (simp add: get_current_price_def client_get_product_def)

lemma get_order_book_world:
  "snd (get_order_book e cfg limit w) = made (Get_product_book (trading_pair cfg) limit) w"
  by (simp add: get_order_book_def client_get_product_book_def)

lemma get_account_balance_world: "snd (get_account_balance e cur w) = made Get_accounts w"
  by (simp add: get_account_balance_def client_get_accounts_def)

lemma submissions_made:
  "submissions (made c w) = submissions w @ (if is_submission c then [c] else [])"
  by (simp add: submissions_def made_def)

lemma submissions_tick [simp]: "submissions (w\<lparr>tick := t\<rparr>) = submissions w"
  by (simp add: submissions_def)

subsection \<open>The simulation\<close>

text \<open>Under the guard \<^verbatim>\<open>current_price > 0\<close> the quotient exists.\<close>

lemma float_div_positive: "float_gt p (Fin 0) \<Longrightarrow> \<exists>q. float_div a p = Some q"
  by (cases p; cases a) (auto simp: float_gt_def)

lemma simulate_market_buy_result:
  "\<exists>q. (if float_gt (price_or_zero (fst (get_current_price e cfg w))) (Fin 0)
          then float_div usd_amount (price_or_zero (fst (get_current_price e cfg w))) = Some q
          else q = Fin 0)
       \<and> simulate_market_buy e cfg usd_amount w =
           (Inr [(''order_id'', ''DRY-RUN-'' @ upper (take 8 (uuid4_hex_at e (Suc (tick w))))),
                 (''product_id'', trading_pair cfg),
                 (''side'', ''BUY''),
                 (''type'', ''MARKET''),
                 (''status'', ''SIMULATED''),
                 (''quote_size'', format_f 2 usd_amount),
                 (''estimated_fill_price'',
                    format_f 2 (price_or_zero (fst (get_current_price e cfg w)))),
                 (''estimated_quantity'', format_f 8 q),
                 (''timestamp'', now_iso_at e (Suc (Suc (tick w))))],
            \<lparr>tick = Suc (Suc (Suc (tick w))),
               calls = calls w @ [Get_product (trading_pair cfg)]\<rparr>)"
proof -
  obtain fetched w1 where g: "get_current_price e cfg w = (fetched, w1)"
    by (cases "get_current_price e cfg w")
  have w1: "w1 = made (Get_product (trading_pair cfg)) w"
    using get_current_price_world [of e cfg w] g by simp
  define cp where "cp = price_or_zero fetched"
  have cp: "(case fetched of None \<Rightarrow> Fin 0 | Some p \<Rightarrow> if float_truthy p then p else Fin 0) = cp"
    by (simp add: cp_def price_or_zero_def float_truthy_def split: option.splits)
  show ?thesis
  proof (cases "float_gt cp (Fin 0)")
    case True
    then obtain q where q: "float_div usd_amount cp = Some q"
      using float_div_positive by blast
    show ?thesis
      using True q w1
      by (simp add: simulate_market_buy_def g cp cp_def [symmetric] uuid4_hex_def
          now_isoformat_def made_def)
  next
    case False
    then show ?thesis
      using w1
      by (simp add: simulate_market_buy_def g cp cp_def [symmetric] uuid4_hex_def
          now_isoformat_def made_def)
  qed
qed

subsection \<open>The amount guards\<close>

text \<open>
  C3. The guards run in order and stop at the first one violated, before anything else
  happens: an amount \<open>\<le> 0\<close> is rejected as InvalidAmount, a positive amount above
  \<^verbatim>\<open>max_order_usd\<close> as ExceedsConfiguredLimit, and in both cases the world is returned as
  it was, so no call of the client has been made.
\<close>

theorem guards_fail_fast:
  "(float_le usd_amount (Fin 0) \<longrightarrow>
      place_market_buy e cfg usd_amount w = (Inl InvalidAmount, w))
   \<and> (float_gt usd_amount (Fin 0) \<and> float_gt usd_amount (max_order_usd cfg) \<longrightarrow>
      place_market_buy e cfg usd_amount w = (Inl ExceedsConfiguredLimit, w))"
  using float_gt_not_le [of usd_amount "Fin 0"] by (auto simp: place_market_buy_def)

theorem guards_fail_fast_witness:
  "float_le (Fin (- 5)) (Fin 0)
   \<and> place_market_buy example_env live_config (Fin (- 5)) start_world
       = (Inl InvalidAmount, start_world)
   \<and> calls start_world = []
   \<and> float_gt (Fin 100) (Fin 0) \<and> float_gt (Fin 100) (max_order_usd live_config)
   \<and> place_market_buy example_env live_config (Fin 100) start_world
       = (Inl ExceedsConfiguredLimit, start_world)"
proof -
  have neg: "float_le (Fin (- 5)) (Fin 0)"
    by (simp add: float_le_def)
  have big: "float_gt (Fin 100) (Fin 0) \<and> float_gt (Fin 100) (max_order_usd live_config)"
    by (simp add: float_gt_def live_config_def example_config_def)
  show ?thesis
    using neg big
      guards_fail_fast [of "Fin (- 5)" example_env live_config start_world]
      guards_fail_fast [of "Fin 100" example_env live_config start_world]
    by (simp add: start_world_def)
qed

lemma simulate_not_below_minimum:
  "fst (simulate_market_buy e cfg usd_amount w) \<noteq> Inl BelowExchangeMinimum"
  using simulate_market_buy_result [of e cfg w usd_amount] by auto

lemma execute_not_below_minimum:
  "fst (execute_market_buy e cfg usd_amount w) \<noteq> Inl BelowExchangeMinimum"
  by (simp add: execute_market_buy_def Let_def split: prod.splits order_reply.splits)

text \<open>
  C6, as the code has it. A positive amount below 1.00 is rejected as
  BelowExchangeMinimum when it does not exceed \<^verbatim>\<open>max_order_usd\<close> (the limit is checked
  first), again with no call made; the amount 1.00 passes this guard and, when within
  the limit, reaches the simulation or the live order.
\<close>

theorem below_minimum_within_limit:
  "(float_gt usd_amount (Fin 0) \<and> float_lt usd_amount (Fin 1)
      \<and> \<not> float_gt usd_amount (max_order_usd cfg) \<longrightarrow>
      place_market_buy e cfg usd_amount w = (Inl BelowExchangeMinimum, w))
   \<and> (\<not> float_gt (Fin 1) (max_order_usd cfg) \<longrightarrow>
      place_market_buy e cfg (Fin 1) w =
        (if is_dry_run cfg then simulate_market_buy e cfg (Fin 1) w
         else execute_market_buy e cfg (Fin 1) w)
      \<and> fst (place_market_buy e cfg (Fin 1) w) \<noteq> Inl BelowExchangeMinimum)"
proof -
  have one: "\<not> float_le (Fin 1) (Fin 0)" "\<not> float_lt (Fin 1) (Fin 1)"
    by (simp_all add: float_le_def float_eq_def)
  show ?thesis
    using float_gt_not_le [of usd_amount "Fin 0"] one
      simulate_not_below_minimum [of e cfg "Fin 1" w]
      execute_not_below_minimum [of e cfg "Fin 1" w]
    by (auto simp: place_market_buy_def)
qed

theorem below_minimum_within_limit_witness:
  "float_gt (Fin (1 / 2)) (Fin 0) \<and> float_lt (Fin (1 / 2)) (Fin 1)
   \<and> \<not> float_gt (Fin (1 / 2)) (max_order_usd example_config)
   \<and> place_market_buy example_env example_config (Fin (1 / 2)) start_world
       = (Inl BelowExchangeMinimum, start_world)
   \<and> \<not> float_gt (Fin 1) (max_order_usd example_config)
   \<and> fst (place_market_buy example_env example_config (Fin 1) start_world)
       \<noteq> Inl BelowExchangeMinimum"
proof -
  have h: "float_gt (Fin (1 / 2)) (Fin 0) \<and> float_lt (Fin (1 / 2)) (Fin 1)
      \<and> \<not> float_gt (Fin (1 / 2)) (max_order_usd example_config)
      \<and> \<not> float_gt (Fin 1) (max_order_usd example_config)"
    by (simp add: float_gt_def example_config_def)
  show ?thesis
    using h
      below_minimum_within_limit [of "Fin (1 / 2)" example_config example_env start_world]
    by blast
qed

theorem below_minimum_counterexample:
  "float_gt (Fin (7 / 10)) (Fin 0) \<and> float_lt (Fin (7 / 10)) (Fin 1)
   \<and> fst (place_market_buy example_env (example_config\<lparr>max_order_usd := Fin (1 / 2)\<rparr>)
        (Fin (7 / 10)) start_world) = Inl ExceedsConfiguredLimit
   \<and> fst (place_market_buy example_env (example_config\<lparr>max_order_usd := Fin (1 / 2)\<rparr>)
        (Fin (7 / 10)) start_world) \<noteq> Inl BelowExchangeMinimum"
  by (simp add: place_market_buy_def float_gt_def float_le_def float_eq_def example_config_def)

subsection \<open>The live order\<close>

lemma get_account_balance_pair:
  "get_account_balance e cur w = (fst (get_account_balance e cur w), made Get_accounts w)"
  using get_account_balance_world [of e cur w] by (simp add: prod_eq_iff)

lemma execute_market_buy_insufficient:
  assumes "fst (get_account_balance e ''USD'' w) = Some b" and "float_lt b usd_amount"
  shows "execute_market_buy e cfg usd_amount w = (Inl InsufficientBalance, made Get_accounts w)"
  unfolding execute_market_buy_def
  by (subst get_account_balance_pair) (simp add: assms)

lemma execute_market_buy_submits:
  assumes "\<not> (case fst (get_account_balance e ''USD'' w) of
               None \<Rightarrow> False | Some b \<Rightarrow> float_lt b usd_amount)"
  shows "calls (snd (execute_market_buy e cfg usd_amount w)) =
           calls w @ [Get_accounts,
                      Market_order_buy (uuid_str (uuid4_hex_at e (Suc (tick w))))
                        (trading_pair cfg) (float_str e usd_amount)]"
    and "fst (execute_market_buy e cfg usd_amount w) =
           (case order_reply_at e (Suc (Suc (tick w))) of
              Order_raises \<Rightarrow> Inl SubmissionFailure
            | Order_falsy \<Rightarrow> Inl EmptyResponse
            | Order oid \<Rightarrow>
                Inr [(''order_id'', (case oid of None \<Rightarrow> ''N/A'' | Some i \<Rightarrow> i)),
                     (''client_order_id'', uuid_str (uuid4_hex_at e (Suc (tick w)))),
                     (''product_id'', trading_pair cfg),
                     (''side'', ''BUY''),
                     (''type'', ''MARKET''),
                     (''quote_size'', float_str e usd_amount),
                     (''status'', ''PLACED''),
                     (''timestamp'', now_iso_at e (Suc (Suc (Suc (tick w)))))])"
  unfolding execute_market_buy_def
  by (subst get_account_balance_pair,
      simp add: assms Let_def uuid4_hex_def client_market_order_buy_def now_isoformat_def
        made_def split: order_reply.splits)+

lemma place_market_buy_live:
  assumes "\<not> is_dry_run cfg" and "\<not> float_le usd_amount (Fin 0)"
    and "\<not> float_gt usd_amount (max_order_usd cfg)" and "\<not> float_lt usd_amount (Fin 1)"
  shows "place_market_buy e cfg usd_amount w = execute_market_buy e cfg usd_amount w"
  using assms by (simp add: place_market_buy_def)

text \<open>
  C2. In live mode, for an amount that passes the three amount guards, a USD balance
  that was read and is below the amount ends the pipeline with InsufficientBalance;
  the only call made is the account listing, and the submission endpoint is not called.
\<close>

theorem live_insufficient_balance:
  assumes "\<not> is_dry_run cfg" and "\<not> float_le usd_amount (Fin 0)"
    and "\<not> float_gt usd_amount (max_order_usd cfg)" and "\<not> float_lt usd_amount (Fin 1)"
    and "fst (get_account_balance e ''USD'' w) = Some b" and "float_lt b usd_amount"
  shows "fst (place_market_buy e cfg usd_amount w) = Inl InsufficientBalance
    \<and> calls (snd (place_market_buy e cfg usd_amount w)) = calls w @ [Get_accounts]
    \<and> submissions (snd (place_market_buy e cfg usd_amount w)) = submissions w"
proof -
  have "place_market_buy e cfg usd_amount w = (Inl InsufficientBalance, made Get_accounts w)"
    using assms place_market_buy_live execute_market_buy_insufficient by simp
  then show ?thesis
    by (simp add: submissions_made) (simp add: made_def)
qed

lemma live_config_live: "\<not> is_dry_run live_config"
  by (simp add: is_dry_run_def live_config_def example_config_def lower_def lower_char_def
      ascii_uppercase_def ascii_lowercase_def)

lemma ten_passes_guards:
  "\<not> float_le (Fin 10) (Fin 0) \<and> \<not> float_gt (Fin 10) (max_order_usd live_config)
   \<and> \<not> float_gt (Fin 10) (max_order_usd example_config) \<and> \<not> float_lt (Fin 10) (Fin 1)"
  by (simp add: float_le_def float_eq_def float_gt_def live_config_def example_config_def)

theorem live_insufficient_balance_witness:
  "\<not> is_dry_run live_config \<and> \<not> float_le (Fin 10) (Fin 0)
   \<and> \<not> float_gt (Fin 10) (max_order_usd live_config) \<and> \<not> float_lt (Fin 10) (Fin 1)
   \<and> fst (get_account_balance example_env ''USD'' start_world) = Some (Fin 5)
   \<and> float_lt (Fin 5) (Fin 10)
   \<and> fst (place_market_buy example_env live_config (Fin 10) start_world)
       = Inl InsufficientBalance
   \<and> calls (snd (place_market_buy example_env live_config (Fin 10) start_world))
       = [Get_accounts]"
proof -
  have bal: "fst (get_account_balance example_env ''USD'' start_world) = Some (Fin 5)"
    by (simp add: get_account_balance_def client_get_accounts_def example_env_def
        start_world_def)
  have lt: "float_lt (Fin 5) (Fin 10)"
    by simp
  have "calls start_world = []"
    by (simp add: start_world_def)
  then show ?thesis
    using live_config_live ten_passes_guards bal lt
      live_insufficient_balance [of live_config "Fin 10" example_env start_world "Fin 5"]
    by simp
qed

text \<open>
  C1, as the code has it. In live mode, for an amount that passes the amount guards, a
  USD balance that could not be read does not stop the pipeline: the balance check is
  skipped and the order is submitted. The calls made are the account listing and the
  order submission, and the result is decided by the answer to the submission.
\<close>

theorem live_unread_balance_submits:
  assumes "\<not> is_dry_run cfg" and "\<not> float_le usd_amount (Fin 0)"
    and "\<not> float_gt usd_amount (max_order_usd cfg)" and "\<not> float_lt usd_amount (Fin 1)"
    and "fst (get_account_balance e ''USD'' w) = None"
  shows "calls (snd (place_market_buy e cfg usd_amount w)) =
           calls w @ [Get_accounts,
                      Market_order_buy (uuid_str (uuid4_hex_at e (Suc (tick w))))
                        (trading_pair cfg) (float_str e usd_amount)]
    \<and> fst (place_market_buy e cfg usd_amount w) =
           (case order_reply_at e (Suc (Suc (tick w))) of
              Order_raises \<Rightarrow> Inl SubmissionFailure
            | Order_falsy \<Rightarrow> Inl EmptyResponse
            | Order oid \<Rightarrow>
                Inr [(''order_id'', (case oid of None \<Rightarrow> ''N/A'' | Some i \<Rightarrow> i)),
                     (''client_order_id'', uuid_str (uuid4_hex_at e (Suc (tick w)))),
                     (''product_id'', trading_pair cfg),
                     (''side'', ''BUY''),
                     (''type'', ''MARKET''),
                     (''quote_size'', float_str e usd_amount),
                     (''status'', ''PLACED''),
                     (''timestamp'', now_iso_at e (Suc (Suc (Suc (tick w)))))])"
proof -
  have eq: "place_market_buy e cfg usd_amount w = execute_market_buy e cfg usd_amount w"
    using assms place_market_buy_live by simp
  have no: "\<not> (case fst (get_account_balance e ''USD'' w) of
               None \<Rightarrow> False | Some b \<Rightarrow> float_lt b usd_amount)"
    using assms(5) by simp
  show ?thesis
    unfolding eq using execute_market_buy_submits [OF no, of cfg] by simp
qed

lemma offline_balance: "fst (get_account_balance offline_accounts_env ''USD'' start_world) = None"
  by (simp add: get_account_balance_def client_get_accounts_def offline_accounts_env_def
      example_env_def start_world_def)

theorem live_unread_balance_submits_witness:
  "\<not> is_dry_run live_config \<and> \<not> float_le (Fin 10) (Fin 0)
   \<and> \<not> float_gt (Fin 10) (max_order_usd live_config) \<and> \<not> float_lt (Fin 10) (Fin 1)
   \<and> fst (get_account_balance offline_accounts_env ''USD'' start_world) = None
   \<and> submissions (snd (place_market_buy offline_accounts_env live_config (Fin 10) start_world))
       \<noteq> []
   \<and> detail ''status'' (fst (place_market_buy offline_accounts_env live_config (Fin 10)
        start_world)) = Some ''PLACED''"
proof -
  have "order_reply_at offline_accounts_env (Suc (Suc (tick start_world))) = Order (Some ''abc123'')"
    by (simp add: offline_accounts_env_def example_env_def)
  then show ?thesis
    using live_config_live ten_passes_guards offline_balance
      live_unread_balance_submits [of live_config "Fin 10" offline_accounts_env start_world]
    by (simp add: submissions_def detail_def start_world_def)
qed

lemma decimal_digit: "n < 10 \<Longrightarrow> decimal n = [digit_char n]"
  by (simp add: decimal.simps)

lemma decimal_more: "\<not> n < 10 \<Longrightarrow> decimal n = decimal (n div 10) @ [digit_char (n mod 10)]"
  by (subst decimal.simps) simp

lemma replicate_numeral: "replicate (numeral k) x = x # replicate (pred_numeral k) x"
  by (simp add: numeral_eq_Suc)

lemmas format_eval =
  Let_def round_half_even_def decimal_digit decimal_more digit_char_def zero_pad_def
  replicate_numeral

lemma example_client_order_id:
  "uuid_str (uuid4_hex_at offline_accounts_env (Suc (tick start_world)))
     = ''3f2a9c1e-5b7d-4e0a-8c6f-000000000001''"
  by (simp add: uuid_str_def offline_accounts_env_def example_env_def start_world_def
      format_eval)

lemma example_quote_size: "float_str offline_accounts_env (Fin 10) = ''10.0''"
  by (simp add: offline_accounts_env_def example_env_def format_eval)

theorem live_unread_balance_counterexample:
  "\<not> is_dry_run live_config \<and> \<not> float_le (Fin 10) (Fin 0)
   \<and> \<not> float_gt (Fin 10) (max_order_usd live_config) \<and> \<not> float_lt (Fin 10) (Fin 1)
   \<and> fst (get_account_balance offline_accounts_env ''USD'' start_world) = None
   \<and> calls (snd (place_market_buy offline_accounts_env live_config (Fin 10) start_world))
       = [Get_accounts,
          Market_order_buy ''3f2a9c1e-5b7d-4e0a-8c6f-000000000001'' ''BTC-USD'' ''10.0'']"
proof -
  have no: "\<not> (case fst (get_account_balance offline_accounts_env ''USD'' start_world) of
               None \<Rightarrow> False | Some b \<Rightarrow> float_lt b (Fin 10))"
    by (simp add: offline_balance)
  have "place_market_buy offline_accounts_env live_config (Fin 10) start_world
      = execute_market_buy offline_accounts_env live_config (Fin 10) start_world"
    using place_market_buy_live live_config_live ten_passes_guards by simp
  then have "calls (snd (place_market_buy offline_accounts_env live_config (Fin 10) start_world))
      = [Get_accounts,
         Market_order_buy ''3f2a9c1e-5b7d-4e0a-8c6f-000000000001'' ''BTC-USD'' ''10.0'']"
    using execute_market_buy_submits(1) [OF no, of live_config]
    by (simp add: example_client_order_id example_quote_size)
      (simp add: start_world_def live_config_def example_config_def)
  then show ?thesis
    using live_config_live ten_passes_guards offline_balance by simp
qed

subsection \<open>Dry run\<close>

lemma place_market_buy_dry:
  assumes "is_dry_run cfg" and "\<not> float_le usd_amount (Fin 0)"
    and "\<not> float_gt usd_amount (max_order_usd cfg)" and "\<not> float_lt usd_amount (Fin 1)"
  shows "place_market_buy e cfg usd_amount w = simulate_market_buy e cfg usd_amount w"
  using assms by (simp add: place_market_buy_def)

lemma simulate_market_buy_calls:
  "calls (snd (simulate_market_buy e cfg usd_amount w)) = calls w @ [Get_product (trading_pair cfg)]"
  using simulate_market_buy_result [of e cfg w usd_amount] by auto

text \<open>
  The quotient of the example: \<^verbatim>\<open>10.0 / 50000.0\<close> is the double
  \<open>7378697629483821 / 2\<^sup>6\<^sup>5\<close>, a little above 0.0002, and renders as 0.00020000.
\<close>

lemma ten_by_fifty_thousand:
  "round_to_double (10 / 50000) = Fin (7378697629483821 / 2 ^ 65)"
  using round_to_double_eq [of "10 / 50000" "- 65" 7378697629483821]
  by simp

lemma rendered_fifth_of_a_thousandth:
  "format_f 8 (Fin (7378697629483821 / 2 ^ 65)) = ''0.00020000''"
proof -
  define x :: rat where "x = 7378697629483821 / 2 ^ 65"
  have pos: "\<not> x < 0"
    by (simp add: x_def)
  have "round_half_even (\<bar>x\<bar> * 10 ^ 8) = 20000"
    by (rule round_half_even_eq) (simp_all add: x_def)
  then have "format_f 8 (Fin x) = ''0.00020000''"
    using pos
    by (simp add: Let_def decimal_digit decimal_more digit_char_def zero_pad_def
        replicate_numeral)
  then show ?thesis
    by (simp only: x_def)
qed

text \<open>
  Where the exact quotient lies midway between two renderings the rounding to a double
  decides: \<^verbatim>\<open>25.0 / 64000.0\<close> is a double a little above 0.000390625 and renders as
  0.00039063.
\<close>

lemma quotient_at_a_tie:
  "float_div (Fin 25) (Fin 64000) = Some (Fin (7205759403792794 / 2 ^ 64))"
  "format_f 8 (Fin (7205759403792794 / 2 ^ 64)) = ''0.00039063''"
proof -
  show "float_div (Fin 25) (Fin 64000) = Some (Fin (7205759403792794 / 2 ^ 64))"
    using round_to_double_eq [of "25 / 64000" "- 64" 7205759403792794] by simp
  define x :: rat where "x = 7205759403792794 / 2 ^ 64"
  have pos: "\<not> x < 0"
    by (simp add: x_def)
  have "round_half_even (\<bar>x\<bar> * 10 ^ 8) = 39063"
    by (rule round_half_even_eq) (simp_all add: x_def)
  then have "format_f 8 (Fin x) = ''0.00039063''"
    using pos
    by (simp add: Let_def decimal_digit decimal_more digit_char_def zero_pad_def
        replicate_numeral)
  then show "format_f 8 (Fin (7205759403792794 / 2 ^ 64)) = ''0.00039063''"
    by (simp only: x_def)
qed

text \<open>
  C5. In dry-run mode, for an amount that passes the guards, the pipeline always returns
  a simulated order and nothing escapes it: it fetches the price with one call, computes
  with price 0 when the fetch failed, and reports the price to two decimals and, to
  eight decimals, the quantity \<open>amount / price\<close> when the price is positive and 0
  otherwise. With price 50000 and amount 10 the quantity is 0.00020000 and the fill
  price 50000.00.
\<close>

theorem dry_run_simulates:
  assumes "is_dry_run cfg" and "\<not> float_le usd_amount (Fin 0)"
    and "\<not> float_gt usd_amount (max_order_usd cfg)" and "\<not> float_lt usd_amount (Fin 1)"
  shows "\<exists>details q.
      fst (place_market_buy e cfg usd_amount w) = Inr details
    \<and> calls (snd (place_market_buy e cfg usd_amount w))
        = calls w @ [Get_product (trading_pair cfg)]
    \<and> map_of details ''status'' = Some ''SIMULATED''
    \<and> map_of details ''estimated_fill_price''
        = Some (format_f 2 (price_or_zero (fst (get_current_price e cfg w))))
    \<and> map_of details ''estimated_quantity'' = Some (format_f 8 q)
    \<and> (if float_gt (price_or_zero (fst (get_current_price e cfg w))) (Fin 0)
        then float_div usd_amount (price_or_zero (fst (get_current_price e cfg w))) = Some q
        else q = Fin 0)
    \<and> (fst (get_current_price e cfg w) = Some (Fin 50000) \<and> usd_amount = Fin 10 \<longrightarrow>
          map_of details ''estimated_quantity'' = Some ''0.00020000''
        \<and> map_of details ''estimated_fill_price'' = Some ''50000.00'')"
proof -
  have eq: "place_market_buy e cfg usd_amount w = simulate_market_buy e cfg usd_amount w"
    using assms by (rule place_market_buy_dry)
  define cp where "cp = price_or_zero (fst (get_current_price e cfg w))"
  obtain q where q: "if float_gt cp (Fin 0) then float_div usd_amount cp = Some q else q = Fin 0"
    and r: "simulate_market_buy e cfg usd_amount w =
           (Inr [(''order_id'', ''DRY-RUN-'' @ upper (take 8 (uuid4_hex_at e (Suc (tick w))))),
                 (''product_id'', trading_pair cfg),
                 (''side'', ''BUY''),
                 (''type'', ''MARKET''),
                 (''status'', ''SIMULATED''),
                 (''quote_size'', format_f 2 usd_amount),
                 (''estimated_fill_price'', format_f 2 cp),
                 (''estimated_quantity'', format_f 8 q),
                 (''timestamp'', now_iso_at e (Suc (Suc (tick w))))],
            \<lparr>tick = Suc (Suc (Suc (tick w))),
               calls = calls w @ [Get_product (trading_pair cfg)]\<rparr>)"
    unfolding cp_def using simulate_market_buy_result [of e cfg w usd_amount] by blast
  define details where "details = projr (fst (simulate_market_buy e cfg usd_amount w))"
  have result: "fst (place_market_buy e cfg usd_amount w) = Inr details"
    by (simp add: eq r details_def)
  have trace: "calls (snd (place_market_buy e cfg usd_amount w))
      = calls w @ [Get_product (trading_pair cfg)]"
    by (simp add: eq r)
  have status: "map_of details ''status'' = Some ''SIMULATED''"
    by (simp add: details_def r)
  have fill: "map_of details ''estimated_fill_price'' = Some (format_f 2 cp)"
    by (simp add: details_def r)
  have quantity: "map_of details ''estimated_quantity'' = Some (format_f 8 q)"
    by (simp add: details_def r)
  have particular:
    "map_of details ''estimated_quantity'' = Some ''0.00020000''
     \<and> map_of details ''estimated_fill_price'' = Some ''50000.00''"
    if "fst (get_current_price e cfg w) = Some (Fin 50000)" and "usd_amount = Fin 10"
  proof -
    have p: "cp = Fin 50000"
      using that by (simp add: cp_def price_or_zero_def)
    have "q = round_to_double (10 / 50000)"
      using q that(2) unfolding p by (simp add: float_gt_def)
    then have "format_f 8 q = ''0.00020000''"
      by (simp only: ten_by_fifty_thousand rendered_fifth_of_a_thousandth)
    moreover have "format_f 2 cp = ''50000.00''"
      unfolding p by (simp add: format_eval)
    ultimately show ?thesis
      using quantity fill by simp
  qed
  show ?thesis
    using result trace status fill quantity q particular unfolding cp_def by blast
qed

theorem dry_run_simulates_witness:
  "is_dry_run example_config \<and> \<not> float_le (Fin 10) (Fin 0)
   \<and> \<not> float_gt (Fin 10) (max_order_usd example_config) \<and> \<not> float_lt (Fin 10) (Fin 1)
   \<and> fst (get_current_price example_env example_config start_world) = Some (Fin 50000)
   \<and> detail ''status'' (fst (place_market_buy example_env example_config (Fin 10) start_world))
       = Some ''SIMULATED''
   \<and> detail ''estimated_quantity''
        (fst (place_market_buy example_env example_config (Fin 10) start_world))
       = Some ''0.00020000''
   \<and> detail ''estimated_fill_price''
        (fst (place_market_buy example_env example_config (Fin 10) start_world))
       = Some ''50000.00''"
proof -
  have dry: "is_dry_run example_config"
    by (simp add: is_dry_run_def example_config_def lower_def lower_char_def
        ascii_uppercase_def ascii_lowercase_def)
  have price: "fst (get_current_price example_env example_config start_world) = Some (Fin 50000)"
    by (simp add: get_current_price_def client_get_product_def example_env_def)
  show ?thesis
    using dry ten_passes_guards price
      dry_run_simulates [of example_config "Fin 10" example_env start_world]
    by (auto simp: detail_def)
qed

text \<open>
  C7. A trading mode whose lower-case form is not \<^verbatim>\<open>live\<close> is a dry run, and then the
  pipeline never reaches the order-submission endpoint: whatever the amount and whatever
  the exchange answers, it makes no call at all or the one price fetch of the simulation.
\<close>

theorem other_modes_never_submit:
  assumes "lower (trading_mode cfg) \<noteq> ''live''"
  shows "is_dry_run cfg
    \<and> submissions (snd (place_market_buy e cfg usd_amount w)) = submissions w
    \<and> (calls (snd (place_market_buy e cfg usd_amount w)) = calls w
       \<or> calls (snd (place_market_buy e cfg usd_amount w))
           = calls w @ [Get_product (trading_pair cfg)])"
proof -
  have dry: "is_dry_run cfg"
    using assms by (simp add: is_dry_run_def)
  have c: "calls (snd (place_market_buy e cfg usd_amount w)) = calls w
       \<or> calls (snd (place_market_buy e cfg usd_amount w))
           = calls w @ [Get_product (trading_pair cfg)]"
    using dry simulate_market_buy_calls [of e cfg usd_amount w]
    by (simp add: place_market_buy_def)
  then have "submissions (snd (place_market_buy e cfg usd_amount w)) = submissions w"
    by (auto simp: submissions_def)
  with dry c show ?thesis
    by simp
qed

theorem other_modes_never_submit_witness:
  "lower (trading_mode (example_config\<lparr>trading_mode := ''LIVE_TRADING''\<rparr>)) \<noteq> ''live''
   \<and> is_dry_run (example_config\<lparr>trading_mode := ''LIVE_TRADING''\<rparr>)
   \<and> submissions (snd (place_market_buy example_env
        (example_config\<lparr>trading_mode := ''LIVE_TRADING''\<rparr>) (Fin 10) start_world)) = []
   \<and> lower (trading_mode (example_config\<lparr>trading_mode := ''prod''\<rparr>)) \<noteq> ''live''
   \<and> is_dry_run (example_config\<lparr>trading_mode := ''prod''\<rparr>)
   \<and> submissions (snd (place_market_buy example_env
        (example_config\<lparr>trading_mode := ''prod''\<rparr>) (Fin 10) start_world)) = []"
proof -
  have a: "lower (trading_mode (example_config\<lparr>trading_mode := ''LIVE_TRADING''\<rparr>)) \<noteq> ''live''"
    by (simp add: lower_def)
  have b: "lower (trading_mode (example_config\<lparr>trading_mode := ''prod''\<rparr>)) \<noteq> ''live''"
    by (simp add: lower_def lower_char_def ascii_uppercase_def ascii_lowercase_def)
  have s: "submissions start_world = []"
    by (simp add: submissions_def start_world_def)
  show ?thesis
    using a b s
      other_modes_never_submit [OF a, of example_env "Fin 10" start_world]
      other_modes_never_submit [OF b, of example_env "Fin 10" start_world]
    by simp
qed

lemma lower_upper_hex: "c \<in> set hex_digits \<Longrightarrow> lower_char (upper_char c) = c"
  unfolding hex_digits_def
  apply simp
  apply (elim disjE)
                 apply (simp_all add: upper_char_def lower_char_def ascii_uppercase_def
      ascii_lowercase_def)
  done

lemma upper_char_hex_inj:
  assumes "a \<in> set hex_digits" and "b \<in> set hex_digits" and "upper_char a = upper_char b"
  shows "a = b"
  using assms by (metis lower_upper_hex)

lemma upper_hex_inj:
  assumes "list_all (\<lambda>c. c \<in> set hex_digits) xs" and "list_all (\<lambda>c. c \<in> set hex_digits) ys"
    and "upper xs = upper ys"
  shows "xs = ys"
  using assms
proof (induction xs arbitrary: ys)
  case Nil
  then show ?case by (simp add: upper_def)
next
  case (Cons x xs)
  then obtain y ys' where ys: "ys = y # ys'"
    by (cases ys) (auto simp: upper_def)
  with Cons.prems have "upper_char x = upper_char y" "upper xs = upper ys'"
    by (simp_all add: upper_def)
  moreover from Cons.prems ys have "x \<in> set hex_digits" "y \<in> set hex_digits"
    "list_all (\<lambda>c. c \<in> set hex_digits) xs" "list_all (\<lambda>c. c \<in> set hex_digits) ys'"
    by simp_all
  ultimately show ?case
    using Cons.IH [of ys'] upper_char_hex_inj [of x y] ys by simp
qed

lemma list_all_take: "list_all P xs \<Longrightarrow> list_all P (take n xs)"
  by (auto simp: list_all_iff dest: in_set_takeD)

text \<open>
  C8, as the code has it. Two runs of the simulation with the same amount and
  configuration that fetch the same price report the same quantity and the same fill
  price. Their order ids are \<^verbatim>\<open>DRY-RUN-\<close> followed by the first eight hexadecimal
  digits, in upper case, of the UUID each run draws: the ids differ exactly when the two
  UUIDs differ within their first eight digits.
\<close>

theorem simulation_twice:
  assumes "fst (get_current_price e cfg w) = fst (get_current_price e cfg w')"
    and "is_uuid_hex (uuid4_hex_at e (Suc (tick w)))"
    and "is_uuid_hex (uuid4_hex_at e (Suc (tick w')))"
  shows "detail ''estimated_quantity'' (fst (simulate_market_buy e cfg usd_amount w))
       = detail ''estimated_quantity'' (fst (simulate_market_buy e cfg usd_amount w'))
    \<and> detail ''estimated_fill_price'' (fst (simulate_market_buy e cfg usd_amount w))
       = detail ''estimated_fill_price'' (fst (simulate_market_buy e cfg usd_amount w'))
    \<and> detail ''estimated_quantity'' (fst (simulate_market_buy e cfg usd_amount w)) \<noteq> None
    \<and> detail ''order_id'' (fst (simulate_market_buy e cfg usd_amount w))
       = Some (''DRY-RUN-'' @ upper (take 8 (uuid4_hex_at e (Suc (tick w)))))
    \<and> (detail ''order_id'' (fst (simulate_market_buy e cfg usd_amount w))
         = detail ''order_id'' (fst (simulate_market_buy e cfg usd_amount w'))
       \<longleftrightarrow> take 8 (uuid4_hex_at e (Suc (tick w))) = take 8 (uuid4_hex_at e (Suc (tick w'))))"
proof -
  define cp where "cp = price_or_zero (fst (get_current_price e cfg w))"
  have cp': "price_or_zero (fst (get_current_price e cfg w')) = cp"
    using assms(1) by (simp add: cp_def)
  obtain q where q: "if float_gt cp (Fin 0) then float_div usd_amount cp = Some q else q = Fin 0"
    and r: "fst (simulate_market_buy e cfg usd_amount w) =
           Inr [(''order_id'', ''DRY-RUN-'' @ upper (take 8 (uuid4_hex_at e (Suc (tick w))))),
                 (''product_id'', trading_pair cfg),
                 (''side'', ''BUY''),
                 (''type'', ''MARKET''),
                 (''status'', ''SIMULATED''),
                 (''quote_size'', format_f 2 usd_amount),
                 (''estimated_fill_price'', format_f 2 cp),
                 (''estimated_quantity'', format_f 8 q),
                 (''timestamp'', now_iso_at e (Suc (Suc (tick w))))]"
    unfolding cp_def using simulate_market_buy_result [of e cfg w usd_amount] by auto
  obtain q' where q': "if float_gt cp (Fin 0) then float_div usd_amount cp = Some q' else q' = Fin 0"
    and r': "fst (simulate_market_buy e cfg usd_amount w') =
           Inr [(''order_id'', ''DRY-RUN-'' @ upper (take 8 (uuid4_hex_at e (Suc (tick w'))))),
                 (''product_id'', trading_pair cfg),
                 (''side'', ''BUY''),
                 (''type'', ''MARKET''),
                 (''status'', ''SIMULATED''),
                 (''quote_size'', format_f 2 usd_amount),
                 (''estimated_fill_price'', format_f 2 cp),
                 (''estimated_quantity'', format_f 8 q'),
                 (''timestamp'', now_iso_at e (Suc (Suc (tick w'))))]"
    using simulate_market_buy_result [of e cfg w' usd_amount] unfolding cp' by auto
  have same: "q' = q"
    using q q' by (cases "float_gt cp (Fin 0)") simp_all
  have hex: "list_all (\<lambda>c. c \<in> set hex_digits) (take 8 (uuid4_hex_at e (Suc (tick w))))"
    "list_all (\<lambda>c. c \<in> set hex_digits) (take 8 (uuid4_hex_at e (Suc (tick w'))))"
    using assms(2,3) by (simp_all add: is_uuid_hex_def list_all_take)
  have ids: "upper (take 8 (uuid4_hex_at e (Suc (tick w))))
        = upper (take 8 (uuid4_hex_at e (Suc (tick w'))))
      \<longleftrightarrow> take 8 (uuid4_hex_at e (Suc (tick w))) = take 8 (uuid4_hex_at e (Suc (tick w')))"
    using upper_hex_inj [OF hex] by auto
  show ?thesis
    unfolding r r' same using ids by (simp add: detail_def)
qed

lemma example_second_world:
  "snd (simulate_market_buy example_env example_config (Fin 10) start_world)
     = \<lparr>tick = 3, calls = [Get_product ''BTC-USD'']\<rparr>"
  using simulate_market_buy_result [of example_env example_config start_world "Fin 10"]
  by (auto simp: start_world_def example_config_def)

lemma example_price:
  "fst (get_current_price example_env example_config w) = Some (Fin 50000)"
  by (simp add: get_current_price_def client_get_product_def example_env_def)

lemma example_uuids:
  "uuid4_hex_at example_env (Suc 0) = ''3f2a9c1e5b7d4e0a8c6f000000000001''"
  "uuid4_hex_at example_env 4 = ''3f2a9c1e5b7d4e0a8c6f000000000004''"
  by (simp_all add: example_env_def format_eval)

lemma example_order_id: "''DRY-RUN-'' @ upper (take 8 ''3f2a9c1e5b7d4e0a8c6f'') = ''DRY-RUN-3F2A9C1E''"
  by (simp add: upper_def upper_char_def ascii_uppercase_def ascii_lowercase_def)

theorem simulation_twice_witness:
  "fst (get_current_price example_env example_config start_world)
     = fst (get_current_price example_env example_config \<lparr>tick = 3, calls = [Get_product ''BTC-USD'']\<rparr>)
   \<and> is_uuid_hex (uuid4_hex_at example_env (Suc (tick start_world)))
   \<and> is_uuid_hex (uuid4_hex_at example_env (Suc (tick \<lparr>tick = 3, calls = [Get_product ''BTC-USD'']\<rparr>)))
   \<and> detail ''estimated_quantity''
        (fst (simulate_market_buy example_env example_config (Fin 10) start_world))
     = detail ''estimated_quantity''
        (fst (simulate_market_buy example_env example_config (Fin 10)
           \<lparr>tick = 3, calls = [Get_product ''BTC-USD'']\<rparr>))
   \<and> detail ''estimated_quantity''
        (fst (simulate_market_buy example_env example_config (Fin 10) start_world)) \<noteq> None"
proof -
  have p: "fst (get_current_price example_env example_config start_world)
     = fst (get_current_price example_env example_config \<lparr>tick = 3, calls = [Get_product ''BTC-USD'']\<rparr>)"
    by (simp add: example_price)
  have u: "is_uuid_hex (uuid4_hex_at example_env (Suc (tick start_world)))"
    "is_uuid_hex (uuid4_hex_at example_env (Suc (tick \<lparr>tick = 3, calls = [Get_product ''BTC-USD'']\<rparr>)))"
    by (simp_all add: start_world_def example_uuids is_uuid_hex_def hex_digits_def)
  show ?thesis
    using p u simulation_twice [OF p u, of "Fin 10"] by blast
qed

theorem simulation_twice_counterexample:
  "fst (get_current_price example_env example_config start_world)
     = fst (get_current_price example_env example_config
         (snd (simulate_market_buy example_env example_config (Fin 10) start_world)))
   \<and> uuid4_hex_at example_env 1 \<noteq> uuid4_hex_at example_env 4
   \<and> detail ''order_id''
        (fst (simulate_market_buy example_env example_config (Fin 10) start_world))
     = Some ''DRY-RUN-3F2A9C1E''
   \<and> detail ''order_id''
        (fst (simulate_market_buy example_env example_config (Fin 10)
           (snd (simulate_market_buy example_env example_config (Fin 10) start_world))))
     = Some ''DRY-RUN-3F2A9C1E''"
proof -
  have first: "detail ''order_id''
        (fst (simulate_market_buy example_env example_config (Fin 10) start_world))
     = Some ''DRY-RUN-3F2A9C1E''"
    using simulate_market_buy_result [of example_env example_config start_world "Fin 10"]
      example_order_id
    by (auto simp: detail_def start_world_def example_uuids)
  have second: "detail ''order_id''
        (fst (simulate_market_buy example_env example_config (Fin 10)
           \<lparr>tick = 3, calls = [Get_product ''BTC-USD'']\<rparr>))
     = Some ''DRY-RUN-3F2A9C1E''"
    using simulate_market_buy_result [of example_env example_config
        "\<lparr>tick = 3, calls = [Get_product ''BTC-USD'']\<rparr>" "Fin 10"]
      example_order_id
    by (auto simp: detail_def example_uuids)
  show ?thesis
    using first second by (simp add: example_second_world example_price example_uuids)
qed

subsection \<open>Diagnostics\<close>

lemma pair_fst_world:
  "validate_credentials e w = (fst (validate_credentials e w), made Get_accounts w)"
  "get_current_price e cfg w
     = (fst (get_current_price e cfg w), made (Get_product (trading_pair cfg)) w)"
  "get_order_book e cfg limit w
     = (fst (get_order_book e cfg limit w), made (Get_product_book (trading_pair cfg) limit) w)"
  using validate_credentials_world [of e w] get_current_price_world [of e cfg w]
    get_order_book_world [of e cfg limit w]
  by (simp_all add: prod_eq_iff)

lemma run_diagnostics_unfolded:
  "run_diagnostics e cfg w =
     (fst (validate_credentials e w)
      \<and> fst (get_current_price e cfg (made Get_accounts w)) \<noteq> None
      \<and> fst (get_order_book e cfg 5 (made (Get_product (trading_pair cfg)) (made Get_accounts w)))
          \<noteq> None,
      made Get_accounts
        (made (Get_product_book (trading_pair cfg) 5)
           (made (Get_product (trading_pair cfg)) (made Get_accounts w))))"
  unfolding run_diagnostics_def
  apply (subst pair_fst_world(1))
  apply (subst pair_fst_world(2))
  apply (subst pair_fst_world(3))
  apply (subst get_account_balance_pair)
  apply (simp add: Let_def)
  done

text \<open>
  C9. The diagnostics always run all four checks, in order and whatever the earlier
  ones gave: the calls made are the account listing, the price fetch, the book fetch of
  depth 5 and the account listing again. The result is true exactly when the
  credential check, the price fetch and the book fetch succeed; a balance that cannot be
  read does not make it false.
\<close>

theorem diagnostics_runs_all_checks:
  "calls (snd (run_diagnostics e cfg w)) =
     calls w @ [Get_accounts, Get_product (trading_pair cfg),
                Get_product_book (trading_pair cfg) 5, Get_accounts]
   \<and> fst (run_diagnostics e cfg w) =
       (fst (validate_credentials e w)
        \<and> fst (get_current_price e cfg (made Get_accounts w)) \<noteq> None
        \<and> fst (get_order_book e cfg 5
               (made (Get_product (trading_pair cfg)) (made Get_accounts w))) \<noteq> None)
   \<and> (fst (validate_credentials e w)
        \<and> fst (get_current_price e cfg (made Get_accounts w)) \<noteq> None
        \<and> fst (get_order_book e cfg 5
               (made (Get_product (trading_pair cfg)) (made Get_accounts w))) \<noteq> None
        \<and> fst (get_account_balance e ''USD''
               (made (Get_product_book (trading_pair cfg) 5)
                  (made (Get_product (trading_pair cfg)) (made Get_accounts w)))) = None
      \<longrightarrow> fst (run_diagnostics e cfg w))"
  unfolding run_diagnostics_unfolded by (simp add: made_def)

theorem diagnostics_runs_all_checks_witness:
  "fst (validate_credentials no_usd_env start_world)
   \<and> fst (get_current_price no_usd_env example_config (made Get_accounts start_world)) \<noteq> None
   \<and> fst (get_order_book no_usd_env example_config 5
          (made (Get_product (trading_pair example_config)) (made Get_accounts start_world)))
       \<noteq> None
   \<and> fst (get_account_balance no_usd_env ''USD''
          (made (Get_product_book (trading_pair example_config) 5)
             (made (Get_product (trading_pair example_config))
                (made Get_accounts start_world)))) = None
   \<and> fst (run_diagnostics no_usd_env example_config start_world)
   \<and> calls (snd (run_diagnostics no_usd_env example_config start_world)) =
       [Get_accounts, Get_product ''BTC-USD'', Get_product_book ''BTC-USD'' 5, Get_accounts]
   \<and> \<not> fst (validate_credentials unreadable_balance_env start_world)
   \<and> \<not> fst (run_diagnostics unreadable_balance_env example_config start_world)
   \<and> calls (snd (run_diagnostics unreadable_balance_env example_config start_world)) =
       [Get_accounts, Get_product ''BTC-USD'', Get_product_book ''BTC-USD'' 5, Get_accounts]"
proof -
  have v: "fst (validate_credentials no_usd_env start_world)"
    by (simp add: validate_credentials_def client_get_accounts_def no_usd_env_def
        example_env_def)
  have p: "fst (get_current_price no_usd_env example_config (made Get_accounts start_world))
      \<noteq> None"
    by (simp add: get_current_price_def client_get_product_def no_usd_env_def example_env_def)
  have b: "fst (get_order_book no_usd_env example_config 5
          (made (Get_product (trading_pair example_config)) (made Get_accounts start_world)))
       \<noteq> None"
    by (simp add: get_order_book_def client_get_product_book_def no_usd_env_def
        example_env_def)
  have a: "fst (get_account_balance no_usd_env ''USD''
          (made (Get_product_book (trading_pair example_config) 5)
             (made (Get_product (trading_pair example_config))
                (made Get_accounts start_world)))) = None"
    by (simp add: get_account_balance_def client_get_accounts_def no_usd_env_def
        example_env_def)
  have c: "calls start_world = []" "trading_pair example_config = ''BTC-USD''"
    by (simp_all add: start_world_def example_config_def)
  have u: "\<not> fst (validate_credentials unreadable_balance_env start_world)"
    by (simp add: validate_credentials_def client_get_accounts_def unreadable_balance_env_def
        example_env_def)
  show ?thesis
    using v p b a c u
      diagnostics_runs_all_checks [of no_usd_env example_config start_world]
      diagnostics_runs_all_checks [of unreadable_balance_env example_config start_world]
    by simp
qed

subsection \<open>Configuration\<close>

lemma lower_char_l: "lower_char c = CHR ''l'' \<longleftrightarrow> c = CHR ''l'' \<or> c = CHR ''L''"
  by (simp add: lower_char_def ascii_uppercase_def ascii_lowercase_def)

lemma lower_char_i: "lower_char c = CHR ''i'' \<longleftrightarrow> c = CHR ''i'' \<or> c = CHR ''I''"
  by (simp add: lower_char_def ascii_uppercase_def ascii_lowercase_def)

lemma lower_char_v: "lower_char c = CHR ''v'' \<longleftrightarrow> c = CHR ''v'' \<or> c = CHR ''V''"
  by (simp add: lower_char_def ascii_uppercase_def ascii_lowercase_def)

lemma lower_char_e: "lower_char c = CHR ''e'' \<longleftrightarrow> c = CHR ''e'' \<or> c = CHR ''E''"
  by (simp add: lower_char_def ascii_uppercase_def ascii_lowercase_def)

lemma lower_live:
  "lower s = ''live'' \<longleftrightarrow>
     (\<exists>l i v e. s = [l, i, v, e] \<and> l \<in> {CHR ''l'', CHR ''L''} \<and> i \<in> {CHR ''i'', CHR ''I''}
        \<and> v \<in> {CHR ''v'', CHR ''V''} \<and> e \<in> {CHR ''e'', CHR ''E''})"
proof -
  have "lower s = ''live'' \<longleftrightarrow>
     (\<exists>l i v e. s = [l, i, v, e] \<and> lower_char l = CHR ''l'' \<and> lower_char i = CHR ''i''
        \<and> lower_char v = CHR ''v'' \<and> lower_char e = CHR ''e'')"
    unfolding lower_def by (auto simp: map_eq_Cons_conv)
  then show ?thesis
    by (simp only: lower_char_l lower_char_i lower_char_v lower_char_e insert_iff empty_iff
        simp_thms)
qed

text \<open>
  C4, as the code has it. \<^verbatim>\<open>is_dry_run\<close> compares the lower-case form of the trading
  mode with \<^verbatim>\<open>live\<close>: it is false exactly for the four-letter spellings of "live" in
  any mix of upper and lower case, and true for every other string.
\<close>

theorem is_dry_run_lower_case:
  "is_dry_run c = (lower (trading_mode c) \<noteq> ''live'')
   \<and> (\<not> is_dry_run c \<longleftrightarrow>
        (\<exists>l i v e. trading_mode c = [l, i, v, e] \<and> l \<in> {CHR ''l'', CHR ''L''}
           \<and> i \<in> {CHR ''i'', CHR ''I''} \<and> v \<in> {CHR ''v'', CHR ''V''}
           \<and> e \<in> {CHR ''e'', CHR ''E''}))"
  unfolding is_dry_run_def using lower_live [of "trading_mode c"] by simp

theorem is_dry_run_lower_case_witness:
  "\<not> is_dry_run (example_config\<lparr>trading_mode := ''Live''\<rparr>)
   \<and> is_dry_run (example_config\<lparr>trading_mode := ''dry_run''\<rparr>)"
proof -
  have "\<exists>l i v e. trading_mode (example_config\<lparr>trading_mode := ''Live''\<rparr>) = [l, i, v, e]
      \<and> l \<in> {CHR ''l'', CHR ''L''} \<and> i \<in> {CHR ''i'', CHR ''I''}
      \<and> v \<in> {CHR ''v'', CHR ''V''} \<and> e \<in> {CHR ''e'', CHR ''E''}"
    by simp
  then have live: "\<not> is_dry_run (example_config\<lparr>trading_mode := ''Live''\<rparr>)"
    using is_dry_run_lower_case [of "example_config\<lparr>trading_mode := ''Live''\<rparr>"] by blast
  have "\<not> (\<exists>l i v e. trading_mode (example_config\<lparr>trading_mode := ''dry_run''\<rparr>) = [l, i, v, e]
      \<and> l \<in> {CHR ''l'', CHR ''L''} \<and> i \<in> {CHR ''i'', CHR ''I''}
      \<and> v \<in> {CHR ''v'', CHR ''V''} \<and> e \<in> {CHR ''e'', CHR ''E''})"
    by simp
  then have "is_dry_run (example_config\<lparr>trading_mode := ''dry_run''\<rparr>)"
    using is_dry_run_lower_case [of "example_config\<lparr>trading_mode := ''dry_run''\<rparr>"] by blast
  with live show ?thesis
    by simp
qed

theorem is_dry_run_exact_counterexample:
  "trading_mode (example_config\<lparr>trading_mode := ''LIVE''\<rparr>) \<noteq> ''live''
   \<and> \<not> is_dry_run (example_config\<lparr>trading_mode := ''LIVE''\<rparr>)"
  by (simp add: is_dry_run_def lower_def lower_char_def ascii_uppercase_def
      ascii_lowercase_def)

lemma sublist_length: "sublist xs ys \<Longrightarrow> length xs \<le> length ys"
  by (auto simp: sublist_def)

text \<open>
  C10, as the code has it. The summary is computed without reading the API secret: two
  configurations that differ only in the secret print the same lines, so the secret is
  in the output only if it happens to occur in the other text printed. The key enters
  the summary only through its masked form, which is the first four characters, three
  dots and the last four characters for a key longer than eight characters and the fixed
  mask \<^verbatim>\<open>****\<close> otherwise; the masked form has eleven characters and so cannot contain
  a key longer than eleven.
\<close>

theorem summary_masks_credentials:
  "print_config_summary (c\<lparr>api_secret := s\<rparr>) = print_config_summary c
   \<and> print_config_summary (c\<lparr>api_key := k\<rparr>)
       = (print_config_summary c)[3 := ''API Key:        '' @ masked_key (c\<lparr>api_key := k\<rparr>)]
   \<and> print_config_summary c ! 3 = ''API Key:        '' @ masked_key c
   \<and> (length (api_key c) > 8 \<longrightarrow>
         masked_key c = take 4 (api_key c) @ ''...'' @ drop (length (api_key c) - 4) (api_key c)
       \<and> length (masked_key c) = 11)
   \<and> (length (api_key c) \<le> 8 \<longrightarrow> masked_key c = ''****'')
   \<and> (length (api_key c) > 11 \<longrightarrow> \<not> sublist (api_key c) (masked_key c))"
proof -
  have secret: "print_config_summary (c\<lparr>api_secret := s\<rparr>) = print_config_summary c"
    by (simp add: print_config_summary_def masked_key_def is_dry_run_def)
  have key: "print_config_summary (c\<lparr>api_key := k\<rparr>)
       = (print_config_summary c)[3 := ''API Key:        '' @ masked_key (c\<lparr>api_key := k\<rparr>)]"
    by (simp add: print_config_summary_def is_dry_run_def numeral_3_eq_3)
  have line: "print_config_summary c ! 3 = ''API Key:        '' @ masked_key c"
    by (simp add: print_config_summary_def numeral_3_eq_3)
  have long: "masked_key c = take 4 (api_key c) @ ''...'' @ drop (length (api_key c) - 4) (api_key c)
       \<and> length (masked_key c) = 11" if "length (api_key c) > 8"
    using that by (simp add: masked_key_def)
  have short: "masked_key c = ''****''" if "length (api_key c) \<le> 8"
    using that by (simp add: masked_key_def)
  have hidden: "\<not> sublist (api_key c) (masked_key c)" if "length (api_key c) > 11"
  proof
    assume "sublist (api_key c) (masked_key c)"
    then have "length (api_key c) \<le> length (masked_key c)"
      by (rule sublist_length)
    with that long show False
      by simp
  qed
  show ?thesis
    using secret key line long short hidden by blast
qed

theorem summary_masks_credentials_witness:
  "length (api_key example_config) > 11
   \<and> masked_key example_config = ''orga...7c1d''
   \<and> \<not> sublist (api_key example_config) (masked_key example_config)
   \<and> length (api_key (example_config\<lparr>api_key := ''short''\<rparr>)) \<le> 8
   \<and> masked_key (example_config\<lparr>api_key := ''short''\<rparr>) = ''****''
   \<and> print_config_summary (example_config\<lparr>api_secret := ''another''\<rparr>)
       = print_config_summary example_config"
proof -
  have long: "length (api_key example_config) > 11" "length (api_key example_config) > 8"
    by (simp_all add: example_config_def)
  have short: "length (api_key (example_config\<lparr>api_key := ''short''\<rparr>)) \<le> 8"
    by simp
  have shown: "take 4 (api_key example_config) @ ''...''
      @ drop (length (api_key example_config) - 4) (api_key example_config) = ''orga...7c1d''"
    by (simp add: example_config_def)
  note full = summary_masks_credentials
    [where c = example_config and s = "''another''" and k = "''short''"]
  note brief = summary_masks_credentials
    [where c = "example_config\<lparr>api_key := ''short''\<rparr>" and s = "''another''"
       and k = "''short''"]
  have 1: "masked_key example_config = ''orga...7c1d''"
    using full long(2) shown by simp
  have 2: "\<not> sublist (api_key example_config) (masked_key example_config)"
    using full long(1) by blast
  have 3: "masked_key (example_config\<lparr>api_key := ''short''\<rparr>) = ''****''"
    using brief short by blast
  have 4: "print_config_summary (example_config\<lparr>api_secret := ''another''\<rparr>)
       = print_config_summary example_config"
    using full by blast
  show ?thesis
    using long(1) short 1 2 3 4 by blast
qed

theorem summary_masks_credentials_counterexample:
  "sublist (api_secret (example_config\<lparr>api_key := ''abcd...wxyz'', api_secret := ''BTC-USD''\<rparr>))
     (print_config_summary
        (example_config\<lparr>api_key := ''abcd...wxyz'', api_secret := ''BTC-USD''\<rparr>) ! 5)
   \<and> length (api_key (example_config\<lparr>api_key := ''abcd...wxyz'', api_secret := ''BTC-USD''\<rparr>)) > 8
   \<and> sublist (api_key (example_config\<lparr>api_key := ''abcd...wxyz'', api_secret := ''BTC-USD''\<rparr>))
       (print_config_summary
          (example_config\<lparr>api_key := ''abcd...wxyz'', api_secret := ''BTC-USD''\<rparr>) ! 3)"
proof -
  have pair: "print_config_summary
        (example_config\<lparr>api_key := ''abcd...wxyz'', api_secret := ''BTC-USD''\<rparr>) ! 5
      = ''Trading Pair:   '' @ ''BTC-USD''"
    by (simp add: print_config_summary_def example_config_def)
  have key: "print_config_summary
        (example_config\<lparr>api_key := ''abcd...wxyz'', api_secret := ''BTC-USD''\<rparr>) ! 3
      = ''API Key:        '' @ ''abcd...wxyz''"
    by (simp add: print_config_summary_def masked_key_def)
  have "sublist ''BTC-USD'' (''Trading Pair:   '' @ ''BTC-USD'')"
    by (rule suffix_imp_sublist) (rule suffix_appendI, rule suffix_order.refl)
  moreover have "sublist ''abcd...wxyz'' (''API Key:        '' @ ''abcd...wxyz'')"
    by (rule suffix_imp_sublist) (rule suffix_appendI, rule suffix_order.refl)
  ultimately show ?thesis
    unfolding pair key by simp
qed

end
